theory Spec2Isabelle
  imports Main
begin

section \<open>The option component (\<open>Md2Option\<close>)\<close>

text \<open>
  The component is a TypeScript class: a handful of boolean fields, an identifier taken
  from a counter of the module, an event emitter, and methods that update the fields and
  emit events. The class becomes a record, every method a function from the object's
  fields to its updated fields. TypeScript's private fields start with an underscore,
  which an Isabelle name cannot: the field \<open>_selected\<close> is \<open>priv_selected\<close> here, and the
  methods \<open>_selectViaInteraction\<close>, \<open>_handleKeydown\<close>, \<open>_emitSelectionChangeEvent\<close> and
  \<open>_getTabIndex\<close> lose their underscore. The input \<open>value\<close> is \<open>value_input\<close>, the getter
  \<open>id\<close> is \<open>get_id\<close>.
\<close>

subsection \<open>Data\<close>

text \<open>An object reference: what \<open>this\<close> denotes inside a method.\<close>

type_synonym ref = nat

text \<open>
  Modelled from the spec: the class \<open>Md2Optgroup\<close> is imported from \<open>./optgroup\<close>, which is
  not among the sources. The specification describes it as a collection of options
  ``that can be disabled as a unit'' and speaks of ``the owning group's flag''; the option
  reads nothing of its group but that flag.
\<close>

record Md2Optgroup =
  optgroup_disabled :: bool

text \<open>
  The event class. Its constructor is
  \<^verbatim>\<open>constructor(public source: Md2Option, public isUserInput = false)\<close>:
  the source is a reference to the emitting option, and an absent second argument
  stands for \<open>false\<close>.
\<close>

record Md2OptionSelectionChange =
  source :: ref
  isUserInput :: bool

definition new_Md2OptionSelectionChange :: "ref \<Rightarrow> bool option \<Rightarrow> Md2OptionSelectionChange" where
  "new_Md2OptionSelectionChange src isUserInput_arg =
     \<lparr>source = src,
      isUserInput = (case isUserInput_arg of None \<Rightarrow> False | Some b \<Rightarrow> b)\<rparr>"

text \<open>
  The parameter properties \<open>public source\<close> and \<open>public isUserInput\<close> declare two fields
  that are not \<open>readonly\<close>: whoever holds an event may assign them, as in
  \<^verbatim>\<open>event.isUserInput = true\<close>.
\<close>

definition assign_source :: "ref \<Rightarrow> Md2OptionSelectionChange \<Rightarrow> Md2OptionSelectionChange" where
  "assign_source r event = event\<lparr>source := r\<rparr>"


text \<open>The only part of a keyboard event the component reads.\<close>

record KeyboardEvent =
  keyCode :: nat

text \<open>
  The fields of an option, in the order of the class. The input \<open>value\<close> has type \<open>any\<close>
  and no initial value (\<open>None\<close> is JavaScript's \<open>undefined\<close>); the emitter
  \<open>onSelectionChange\<close> is the sequence of events emitted so far, oldest first (its
  subscribers belong to other components and are not part of the option); \<open>group\<close> is
  the optional group injected by the constructor (\<open>None\<close> when the option stands alone),
  which the option only ever reads; \<open>priv_element\<close> is the reference to the host element,
  opaque here.
\<close>

record ('v, 'e) Md2Option =
  priv_selected :: bool
  priv_active :: bool
  priv_disabled :: bool
  priv_id :: string
  multiple :: bool
  value_input :: "'v option"
  onSelectionChange :: "Md2OptionSelectionChange list"
  group :: "Md2Optgroup option"
  priv_element :: 'e

subsection \<open>Getters\<close>

definition get_id :: "('v, 'e) Md2Option \<Rightarrow> string" where
  "get_id opt = priv_id opt"

definition selected :: "('v, 'e) Md2Option \<Rightarrow> bool" where
  "selected opt = priv_selected opt"

definition active :: "('v, 'e) Md2Option \<Rightarrow> bool" where
  "active opt = priv_active opt"

text \<open>
  \<^verbatim>\<open>get disabled() { return (this.group && this.group.disabled) || this._disabled; }\<close>
  With no group, \<open>this.group && ...\<close> is the falsy \<open>this.group\<close> itself and \<open>||\<close> returns its
  right operand.
\<close>

definition disabled :: "('v, 'e) Md2Option \<Rightarrow> bool" where
  "disabled opt =
     ((case group opt of None \<Rightarrow> False | Some g \<Rightarrow> optgroup_disabled g) \<or> priv_disabled opt)"

text \<open>
  \<^verbatim>\<open>set disabled(value: any) { this._disabled = coerceBooleanProperty(value); }\<close>
  The coercion is imported from outside the sources and is a parameter.
\<close>

definition set_disabled :: "('a \<Rightarrow> bool) \<Rightarrow> 'a \<Rightarrow> ('v, 'e) Md2Option \<Rightarrow> ('v, 'e) Md2Option" where
  "set_disabled coerceBooleanProperty v opt = opt\<lparr>priv_disabled := coerceBooleanProperty v\<rparr>"

subsection \<open>Methods\<close>

text \<open>
  \<^verbatim>\<open>private _emitSelectionChangeEvent(isUserInput = false): void {
    this.onSelectionChange.emit(new Md2OptionSelectionChange(this, isUserInput)); }\<close>
\<close>

definition emitSelectionChangeEvent ::
  "ref \<Rightarrow> bool option \<Rightarrow> ('v, 'e) Md2Option \<Rightarrow> ('v, 'e) Md2Option" where
  "emitSelectionChangeEvent this isUserInput_arg opt =
     (let isUserInput = (case isUserInput_arg of None \<Rightarrow> False | Some b \<Rightarrow> b)
      in opt\<lparr>onSelectionChange :=
               onSelectionChange opt @ [new_Md2OptionSelectionChange this (Some isUserInput)]\<rparr>)"

definition select :: "ref \<Rightarrow> ('v, 'e) Md2Option \<Rightarrow> ('v, 'e) Md2Option" where
  "select this opt = emitSelectionChangeEvent this None (opt\<lparr>priv_selected := True\<rparr>)"

definition deselect :: "ref \<Rightarrow> ('v, 'e) Md2Option \<Rightarrow> ('v, 'e) Md2Option" where
  "deselect this opt = emitSelectionChangeEvent this None (opt\<lparr>priv_selected := False\<rparr>)"

definition setActiveStyles :: "('v, 'e) Md2Option \<Rightarrow> ('v, 'e) Md2Option" where
  "setActiveStyles opt = opt\<lparr>priv_active := True\<rparr>"

definition setInactiveStyles :: "('v, 'e) Md2Option \<Rightarrow> ('v, 'e) Md2Option" where
  "setInactiveStyles opt = opt\<lparr>priv_active := False\<rparr>"

text \<open>
  \<^verbatim>\<open>if (!this.disabled) {
    this._selected = this.multiple ? !this._selected : true;
    this._emitSelectionChangeEvent(true); }\<close>
\<close>

definition selectViaInteraction :: "ref \<Rightarrow> ('v, 'e) Md2Option \<Rightarrow> ('v, 'e) Md2Option" where
  "selectViaInteraction this opt =
     (if \<not> disabled opt
      then emitSelectionChangeEvent this (Some True)
             (opt\<lparr>priv_selected := (if multiple opt then \<not> priv_selected opt else True)\<rparr>)
      else opt)"

text \<open>
  \<^verbatim>\<open>if (event.keyCode === ENTER || event.keyCode === SPACE) { this._selectViaInteraction(); }\<close>
  The two key codes are imported from \<open>../core/keyboard/keycodes\<close>, outside the sources,
  and are parameters.
\<close>

definition handleKeydown ::
  "nat \<Rightarrow> nat \<Rightarrow> ref \<Rightarrow> KeyboardEvent \<Rightarrow> ('v, 'e) Md2Option \<Rightarrow> ('v, 'e) Md2Option" where
  "handleKeydown ENTER SPACE this event opt =
     (if keyCode event = ENTER \<or> keyCode event = SPACE
      then selectViaInteraction this opt
      else opt)"

definition getTabIndex :: "('v, 'e) Md2Option \<Rightarrow> string" where
  "getTabIndex opt = (if disabled opt then ''-1'' else ''0'')"

text \<open>
  The events a call has emitted: those of the emitter after the call that were not
  there before it.
\<close>

definition emitted :: "('v, 'e) Md2Option \<Rightarrow> ('v, 'e) Md2Option \<Rightarrow> Md2OptionSelectionChange list" where
  "emitted before after = drop (length (onSelectionChange before)) (onSelectionChange after)"

subsection \<open>Creation and the identifier counter\<close>

text \<open>
  \<^verbatim>\<open>let _uniqueIdCounter = 0;\<close> is a variable of the module, shared by all options of the
  process, and \<^verbatim>\<open>private _id: string = `md2-option-${_uniqueIdCounter++}`;\<close> reads and
  increments it once for every option created.

  A JavaScript number is an IEEE 754 double. Starting from 0 and adding 1, the counter
  holds non-negative integers only, and the model holds it as a natural number, with
  the rounding of the addition written out:
  \<^item> below \<open>2 ^ 53\<close> every integer is a double and \<open>c + 1\<close> is exact;
  \<^item> from \<open>2 ^ 53\<close> to \<open>2 ^ 54\<close> the doubles are the even integers, \<open>c + 1\<close> lies halfway
    between \<open>c\<close> and \<open>c + 2\<close>, and the tie goes to the one with the even significand:
    to \<open>c\<close> when \<open>c div 2\<close> is even, to \<open>c + 2\<close> when it is odd (so
    \<open>9007199254740992 + 1\<close> is \<open>9007199254740992\<close> again, and \<open>9007199254740994 + 1\<close> is
    \<open>9007199254740996\<close>);
  \<^item> from \<open>2 ^ 54\<close> on the doubles are at least 4 apart and \<open>c + 1\<close> rounds back to \<open>c\<close>.
  A counter that starts at 0 counts up to \<open>2 ^ 53\<close> and stays there.
\<close>

definition exact_limit :: nat where
  "exact_limit = 2 ^ 53"

definition initial_uniqueIdCounter :: nat where
  "initial_uniqueIdCounter = 0"

text \<open>\<open>c++\<close>: the value read, and the counter afterwards.\<close>

definition postIncrement :: "nat \<Rightarrow> nat \<times> nat" where
  "postIncrement c =
     (c, if c < exact_limit then c + 1
         else if c < 2 * exact_limit \<and> odd (c div 2) then c + 2
         else c)"

text \<open>
  The template literal converts the number to a string: for an integer below \<open>10 ^ 21\<close>
  these are its decimal digits, most significant first, with no sign and no exponent.
\<close>

definition digit_char :: "nat \<Rightarrow> char" where
  "digit_char d = char_of (of_char CHR ''0'' + d)"

function toString :: "nat \<Rightarrow> string" where
  "toString n = (if n < 10 then [digit_char n] else toString (n div 10) @ [digit_char (n mod 10)])"
  by pat_completeness auto
termination
  by (relation "measure (\<lambda>n. n)") auto

declare toString.simps [simp del]

text \<open>
  The constructor \<^verbatim>\<open>constructor(@Optional() public readonly group: Md2Optgroup,
  private _element: ElementRef)\<close> with the field initialisers of the class. It takes the
  counter of the module and returns it incremented.
\<close>

definition new_Md2Option ::
  "Md2Optgroup option \<Rightarrow> 'e \<Rightarrow> nat \<Rightarrow> ('v, 'e) Md2Option \<times> nat" where
  "new_Md2Option grp element uniqueIdCounter =
     (case postIncrement uniqueIdCounter of
        (n, uniqueIdCounter') \<Rightarrow>
          (\<lparr>priv_selected = False,
            priv_active = False,
            priv_disabled = False,
            priv_id = ''md2-option-'' @ toString n,
            multiple = False,
            value_input = None,
            onSelectionChange = [],
            group = grp,
            priv_element = element\<rparr>,
           uniqueIdCounter'))"

text \<open>
  A process creates its options one after the other: the constructor runs once for each
  pair of arguments, in order, on the counter the previous one left.
\<close>

fun create_options ::
  "(Md2Optgroup option \<times> 'e) list \<Rightarrow> nat \<Rightarrow> ('v, 'e) Md2Option list \<times> nat" where
  "create_options [] c = ([], c)"
| "create_options ((grp, element) # args) c =
     (case new_Md2Option grp element c of
        (opt, c') \<Rightarrow>
          (case create_options args c' of
             (opts, c'') \<Rightarrow> (opt # opts, c'')))"

text \<open>
  The counter value an identifier embeds: the number that its decimal digits denote,
  after the eleven characters of \<open>md2-option-\<close>.
\<close>

definition digits_value :: "string \<Rightarrow> nat" where
  "digits_value s = foldl (\<lambda>acc ch. acc * 10 + (of_char ch - of_char CHR ''0'')) 0 s"

definition embedded_counter :: "string \<Rightarrow> nat" where
  "embedded_counter ident = digits_value (drop (length ''md2-option-'') ident)"

subsection \<open>Sample options\<close>

text \<open>
  Three options as a process would hold them: one alone, one in a disabled group, and
  one in an enabled group and in multiple mode, already selected.
\<close>

definition plain_option :: "(nat, unit) Md2Option" where
  "plain_option =
     \<lparr>priv_selected = False, priv_active = False, priv_disabled = False,
      priv_id = ''md2-option-0'', multiple = False, value_input = Some 1,
      onSelectionChange = [], group = None, priv_element = ()\<rparr>"

definition grouped_option :: "(nat, unit) Md2Option" where
  "grouped_option =
     \<lparr>priv_selected = False, priv_active = False, priv_disabled = False,
      priv_id = ''md2-option-1'', multiple = False, value_input = Some 2,
      onSelectionChange = [], group = Some \<lparr>optgroup_disabled = True\<rparr>, priv_element = ()\<rparr>"

definition multiple_option :: "(nat, unit) Md2Option" where
  "multiple_option =
     \<lparr>priv_selected = True, priv_active = False, priv_disabled = False,
      priv_id = ''md2-option-2'', multiple = True, value_input = Some 3,
      onSelectionChange = [], group = Some \<lparr>optgroup_disabled = False\<rparr>, priv_element = ()\<rparr>"

text \<open>The first two options of a process, as the constructor leaves them.\<close>

definition first_created :: "(nat, unit) Md2Option" where
  "first_created =
     \<lparr>priv_selected = False, priv_active = False, priv_disabled = False,
      priv_id = ''md2-option-0'', multiple = False, value_input = None,
      onSelectionChange = [], group = None, priv_element = ()\<rparr>"

definition second_created :: "(nat, unit) Md2Option" where
  "second_created =
     \<lparr>priv_selected = False, priv_active = False, priv_disabled = False,
      priv_id = ''md2-option-1'', multiple = False, value_input = None,
      onSelectionChange = [], group = None, priv_element = ()\<rparr>"

section \<open>Properties\<close>

subsection \<open>Selection and events\<close>

lemma emit_fields:
  "priv_selected (emitSelectionChangeEvent this a opt) = priv_selected opt"
  "priv_active (emitSelectionChangeEvent this a opt) = priv_active opt"
  "priv_disabled (emitSelectionChangeEvent this a opt) = priv_disabled opt"
  "priv_id (emitSelectionChangeEvent this a opt) = priv_id opt"
  "multiple (emitSelectionChangeEvent this a opt) = multiple opt"
  "value_input (emitSelectionChangeEvent this a opt) = value_input opt"
  "group (emitSelectionChangeEvent this a opt) = group opt"
  "priv_element (emitSelectionChangeEvent this a opt) = priv_element opt"
  by (simp_all add: emitSelectionChangeEvent_def)

lemma emit_events:
  "onSelectionChange (emitSelectionChangeEvent this a opt) =
     onSelectionChange opt @ [\<lparr>source = this, isUserInput = (case a of None \<Rightarrow> False | Some b \<Rightarrow> b)\<rparr>]"
  by (simp add: emitSelectionChangeEvent_def new_Md2OptionSelectionChange_def)

lemma emit_disabled: "disabled (emitSelectionChangeEvent this a opt) = disabled opt"
  by (simp add: disabled_def emit_fields)

lemma select_events:
  "onSelectionChange (select this opt) = onSelectionChange opt @ [\<lparr>source = this, isUserInput = False\<rparr>]"
  by (simp add: select_def emit_events)

lemma deselect_events:
  "onSelectionChange (deselect this opt) = onSelectionChange opt @ [\<lparr>source = this, isUserInput = False\<rparr>]"
  by (simp add: deselect_def emit_events)

lemma interaction_enabled:
  "\<not> disabled opt \<Longrightarrow>
   selectViaInteraction this opt =
     emitSelectionChangeEvent this (Some True)
       (opt\<lparr>priv_selected := (if multiple opt then \<not> priv_selected opt else True)\<rparr>)"
  by (simp add: selectViaInteraction_def)

lemma interaction_disabled: "disabled opt \<Longrightarrow> selectViaInteraction this opt = opt"
  by (simp add: selectViaInteraction_def)

lemma interaction_events:
  "\<not> disabled opt \<Longrightarrow>
   onSelectionChange (selectViaInteraction this opt) =
     onSelectionChange opt @ [\<lparr>source = this, isUserInput = True\<rparr>]"
  by (simp add: interaction_enabled emit_events)

lemma interaction_selected:
  "\<not> disabled opt \<Longrightarrow>
   selected (selectViaInteraction this opt) = (if multiple opt then \<not> selected opt else True)"
  by (simp add: interaction_enabled selected_def emit_fields)

lemma interaction_keeps_mode:
  "multiple (selectViaInteraction this opt) = multiple opt"
  "disabled (selectViaInteraction this opt) = disabled opt"
  by (simp_all add: selectViaInteraction_def emit_fields emit_disabled disabled_def)

lemma emitted_append: "onSelectionChange after = onSelectionChange before @ es \<Longrightarrow> emitted before after = es"
  by (simp add: emitted_def)

lemma emitted_same: "emitted opt opt = []"
  by (simp add: emitted_def)

lemma sample_disabled:
  "\<not> disabled plain_option" "disabled grouped_option" "\<not> disabled multiple_option"
  by (simp_all add: disabled_def plain_option_def grouped_option_def multiple_option_def)

lemma sample_multiple:
  "\<not> multiple plain_option" "\<not> multiple grouped_option" "multiple multiple_option"
  by (simp_all add: plain_option_def grouped_option_def multiple_option_def)


lemma sample_selected:
  "\<not> selected plain_option" "\<not> selected grouped_option" "selected multiple_option"
  by (simp_all add: selected_def plain_option_def grouped_option_def multiple_option_def)

text \<open>
  C1. Reading \<open>disabled\<close> gives true whenever the option has a group and the group is
  disabled, whatever the option's own flag; with no group, or with a group that is not
  disabled, it gives the option's own flag.
\<close>

theorem disabled_getter:
  "(\<forall>g. group opt = Some g \<and> optgroup_disabled g \<longrightarrow> disabled opt)
   \<and> (group opt = None \<longrightarrow> disabled opt = priv_disabled opt)
   \<and> (\<forall>g. group opt = Some g \<and> \<not> optgroup_disabled g \<longrightarrow> disabled opt = priv_disabled opt)"
  by (simp add: disabled_def)

theorem disabled_getter_witness:
  "(group grouped_option = Some \<lparr>optgroup_disabled = True\<rparr>
      \<and> \<not> priv_disabled grouped_option \<and> disabled grouped_option)
   \<and> (group plain_option = None
      \<and> disabled plain_option = priv_disabled plain_option)
   \<and> (group multiple_option = Some \<lparr>optgroup_disabled = False\<rparr>
      \<and> disabled multiple_option = priv_disabled multiple_option)"
  using disabled_getter [of grouped_option] disabled_getter [of plain_option]
    disabled_getter [of multiple_option]
  by (simp add: grouped_option_def plain_option_def multiple_option_def)

text \<open>
  C2. On an option that does not read disabled and is not in multiple mode,
  \<open>_selectViaInteraction()\<close> leaves \<open>selected\<close> true, whatever it was before, and emits
  one event whose \<open>isUserInput\<close> is true.
\<close>

theorem interaction_single_selects:
  assumes "\<not> disabled opt" and "\<not> multiple opt"
  shows "selected (selectViaInteraction this opt)
    \<and> emitted opt (selectViaInteraction this opt) = [\<lparr>source = this, isUserInput = True\<rparr>]"
  using assms by (simp add: interaction_selected interaction_events emitted_append)

theorem interaction_single_selects_witness:
  "\<not> disabled plain_option \<and> \<not> multiple plain_option
   \<and> selected (selectViaInteraction 7 plain_option)
   \<and> emitted plain_option (selectViaInteraction 7 plain_option)
       = [\<lparr>source = 7, isUserInput = True\<rparr>]"
  using interaction_single_selects [of plain_option 7]
  by (simp add: sample_disabled sample_multiple)

text \<open>
  C3. On an option that does not read disabled and is in multiple mode,
  \<open>_selectViaInteraction()\<close> negates \<open>selected\<close>, and two calls in a row give \<open>selected\<close>
  its first value back.
\<close>

theorem interaction_multiple_toggles:
  assumes "\<not> disabled opt" and "multiple opt"
  shows "selected (selectViaInteraction this opt) = (\<not> selected opt)
    \<and> selected (selectViaInteraction this (selectViaInteraction this opt)) = selected opt"
proof -
  let ?once = "selectViaInteraction this opt"
  from assms have first: "selected ?once = (\<not> selected opt)"
    by (simp add: interaction_selected)
  from assms have "\<not> disabled ?once" and "multiple ?once"
    by (simp_all add: interaction_keeps_mode)
  then have "selected (selectViaInteraction this ?once) = (\<not> selected ?once)"
    by (simp add: interaction_selected)
  with first show ?thesis by simp
qed

theorem interaction_multiple_toggles_witness:
  "\<not> disabled multiple_option \<and> multiple multiple_option \<and> selected multiple_option
   \<and> \<not> selected (selectViaInteraction 7 multiple_option)
   \<and> selected (selectViaInteraction 7 (selectViaInteraction 7 multiple_option))"
  using interaction_multiple_toggles [of multiple_option 7]
  by (simp add: sample_disabled sample_multiple sample_selected)

text \<open>
  C4. On an option that reads disabled, \<open>_selectViaInteraction()\<close> changes nothing, neither
  \<open>selected\<close> nor any other field, and emits no event; so does a keydown of Enter or
  Space, which goes through it.
\<close>

theorem interaction_disabled_noop:
  assumes "disabled opt"
  shows "selectViaInteraction this opt = opt
    \<and> selected (selectViaInteraction this opt) = selected opt
    \<and> emitted opt (selectViaInteraction this opt) = []
    \<and> handleKeydown ENTER SPACE this event opt = opt"
  using assms by (simp add: interaction_disabled emitted_same handleKeydown_def)

theorem interaction_disabled_noop_witness:
  "disabled grouped_option
   \<and> selectViaInteraction 7 grouped_option = grouped_option
   \<and> emitted grouped_option (selectViaInteraction 7 grouped_option) = []
   \<and> handleKeydown 13 32 7 \<lparr>keyCode = 13\<rparr> grouped_option = grouped_option"
  using interaction_disabled_noop [of grouped_option 7 13 32 "\<lparr>keyCode = 13\<rparr>"]
  by (simp add: sample_disabled emitted_same)

text \<open>
  C5. An event carries \<open>isUserInput\<close> true when \<open>_selectViaInteraction()\<close> produced it, on a
  click or on a keydown, and false when a call of \<open>select()\<close> or \<open>deselect()\<close> produced it.
\<close>

theorem isUserInput_matches_path:
  "(\<forall>e \<in> set (emitted opt (selectViaInteraction this opt)). isUserInput e)
   \<and> (\<forall>e \<in> set (emitted opt (handleKeydown ENTER SPACE this event opt)). isUserInput e)
   \<and> (\<forall>e \<in> set (emitted opt (select this opt)). \<not> isUserInput e)
   \<and> (\<forall>e \<in> set (emitted opt (deselect this opt)). \<not> isUserInput e)"
proof -
  have click: "\<forall>e \<in> set (emitted opt (selectViaInteraction this opt)). isUserInput e"
  proof (cases "disabled opt")
    case True
    then show ?thesis by (simp add: interaction_disabled emitted_same)
  next
    case False
    then show ?thesis by (simp add: interaction_events emitted_append)
  qed
  then have key: "\<forall>e \<in> set (emitted opt (handleKeydown ENTER SPACE this event opt)). isUserInput e"
    by (simp add: handleKeydown_def emitted_same)
  have sel: "\<forall>e \<in> set (emitted opt (select this opt)). \<not> isUserInput e"
    by (simp add: select_events emitted_append)
  have desel: "\<forall>e \<in> set (emitted opt (deselect this opt)). \<not> isUserInput e"
    by (simp add: deselect_events emitted_append)
  from click key sel desel show ?thesis by blast
qed

theorem isUserInput_matches_path_witness:
  "(\<lparr>source = 7, isUserInput = True\<rparr> \<in> set (emitted plain_option (selectViaInteraction 7 plain_option))
      \<and> isUserInput \<lparr>source = 7, isUserInput = True\<rparr>)
   \<and> (\<lparr>source = 7, isUserInput = True\<rparr>
        \<in> set (emitted plain_option (handleKeydown 13 32 7 \<lparr>keyCode = 32\<rparr> plain_option))
      \<and> isUserInput \<lparr>source = 7, isUserInput = True\<rparr>)
   \<and> (\<lparr>source = 7, isUserInput = False\<rparr> \<in> set (emitted plain_option (select 7 plain_option))
      \<and> \<not> isUserInput \<lparr>source = 7, isUserInput = False\<rparr>)
   \<and> (\<lparr>source = 7, isUserInput = False\<rparr> \<in> set (emitted plain_option (deselect 7 plain_option))
      \<and> \<not> isUserInput \<lparr>source = 7, isUserInput = False\<rparr>)"
  using isUserInput_matches_path [of plain_option 7 13 32 "\<lparr>keyCode = 32\<rparr>"]
  by (simp add: handleKeydown_def interaction_events select_events deselect_events
      emitted_append sample_disabled)

text \<open>
  C6. \<open>select()\<close> sets \<open>selected\<close> to true and \<open>deselect()\<close> sets it to false on every
  option, disabled or not, and whatever \<open>selected\<close> was; each call emits one event whose
  \<open>isUserInput\<close> is false.
\<close>

theorem select_deselect_unconditional:
  "selected (select this opt)
   \<and> \<not> selected (deselect this opt)
   \<and> emitted opt (select this opt) = [\<lparr>source = this, isUserInput = False\<rparr>]
   \<and> emitted opt (deselect this opt) = [\<lparr>source = this, isUserInput = False\<rparr>]"
  by (simp add: select_events deselect_events emitted_append)
    (simp add: select_def deselect_def selected_def emit_fields)

text \<open>
  C8. \<open>_handleKeydown(event)\<close> does what \<open>_selectViaInteraction()\<close> does when the key code
  of the event is ENTER or SPACE; on every other key code it leaves the option as it
  was and emits nothing.
\<close>

theorem handleKeydown_enter_space:
  "(keyCode event = ENTER \<or> keyCode event = SPACE \<longrightarrow>
      handleKeydown ENTER SPACE this event opt = selectViaInteraction this opt)
   \<and> (keyCode event \<noteq> ENTER \<and> keyCode event \<noteq> SPACE \<longrightarrow>
      handleKeydown ENTER SPACE this event opt = opt
      \<and> emitted opt (handleKeydown ENTER SPACE this event opt) = [])"
  by (simp add: handleKeydown_def emitted_same)

theorem handleKeydown_enter_space_witness:
  "(keyCode \<lparr>keyCode = 13\<rparr> = 13
      \<and> handleKeydown 13 32 7 \<lparr>keyCode = 13\<rparr> plain_option = selectViaInteraction 7 plain_option
      \<and> selected (handleKeydown 13 32 7 \<lparr>keyCode = 13\<rparr> plain_option))
   \<and> (keyCode \<lparr>keyCode = 32\<rparr> = 32
      \<and> handleKeydown 13 32 7 \<lparr>keyCode = 32\<rparr> plain_option = selectViaInteraction 7 plain_option)
   \<and> (keyCode \<lparr>keyCode = 9\<rparr> \<noteq> 13 \<and> keyCode \<lparr>keyCode = 9\<rparr> \<noteq> 32
      \<and> handleKeydown 13 32 7 \<lparr>keyCode = 9\<rparr> plain_option = plain_option
      \<and> emitted plain_option (handleKeydown 13 32 7 \<lparr>keyCode = 9\<rparr> plain_option) = [])"
  using handleKeydown_enter_space [of "\<lparr>keyCode = 13\<rparr>" 13 32 7 plain_option]
    handleKeydown_enter_space [of "\<lparr>keyCode = 32\<rparr>" 13 32 7 plain_option]
    handleKeydown_enter_space [of "\<lparr>keyCode = 9\<rparr>" 13 32 7 plain_option]
  by (simp add: interaction_selected sample_disabled sample_multiple emitted_same)




text \<open>
  C10. \<open>setActiveStyles()\<close> sets \<open>active\<close> to true and \<open>setInactiveStyles()\<close> sets it to
  false. Neither changes \<open>selected\<close>, \<open>disabled\<close>, \<open>multiple\<close>, \<open>value\<close> or \<open>id\<close>, nor any
  other field, and neither emits an event.
\<close>

theorem active_styles_frame:
  "active (setActiveStyles opt) \<and> \<not> active (setInactiveStyles opt)
   \<and> setActiveStyles opt = opt\<lparr>priv_active := True\<rparr>
   \<and> setInactiveStyles opt = opt\<lparr>priv_active := False\<rparr>
   \<and> selected (setActiveStyles opt) = selected opt
   \<and> selected (setInactiveStyles opt) = selected opt
   \<and> disabled (setActiveStyles opt) = disabled opt
   \<and> disabled (setInactiveStyles opt) = disabled opt
   \<and> multiple (setActiveStyles opt) = multiple opt
   \<and> multiple (setInactiveStyles opt) = multiple opt
   \<and> value_input (setActiveStyles opt) = value_input opt
   \<and> value_input (setInactiveStyles opt) = value_input opt
   \<and> get_id (setActiveStyles opt) = get_id opt
   \<and> get_id (setInactiveStyles opt) = get_id opt
   \<and> emitted opt (setActiveStyles opt) = []
   \<and> emitted opt (setInactiveStyles opt) = []"
  by (simp add: setActiveStyles_def setInactiveStyles_def active_def selected_def
      disabled_def get_id_def emitted_def)

subsection \<open>Identifiers\<close>

lemma digit_value: "d < 10 \<Longrightarrow> of_char (digit_char d) - of_char CHR ''0'' = (d::nat)"
  by (simp add: digit_char_def)

lemma digits_value_single: "d < 10 \<Longrightarrow> digits_value [digit_char d] = d"
  by (simp add: digits_value_def digit_char_def)

lemma digits_value_snoc:
  "digits_value (s @ [ch]) = digits_value s * 10 + (of_char ch - of_char CHR ''0'')"
  by (simp add: digits_value_def)

lemma digits_value_toString: "digits_value (toString n) = n"
proof (induction n rule: toString.induct)
  case (1 n)
  show ?case
  proof (cases "n < 10")
    case True
    then have "toString n = [digit_char n]"
      by (subst toString.simps) simp
    with True show ?thesis
      by (simp only: digits_value_single)
  next
    case False
    then have unfold: "toString n = toString (n div 10) @ [digit_char (n mod 10)]"
      by (subst toString.simps) simp
    from False 1 have "digits_value (toString (n div 10)) = n div 10"
      by simp
    moreover have "n mod 10 < 10" by simp
    ultimately show ?thesis
      by (simp only: unfold digits_value_snoc digit_value) simp
  qed
qed

lemma embedded_counter_id: "embedded_counter (''md2-option-'' @ toString n) = n"
proof -
  have "drop (length ''md2-option-'') (''md2-option-'' @ toString n) = toString n"
    by (rule append_eq_conv_conj [THEN iffD1, THEN conjunct2, symmetric]) simp
  then show ?thesis
    by (simp only: embedded_counter_def digits_value_toString)
qed

lemma new_Md2Option_id:
  "get_id (fst (new_Md2Option grp element c)) = ''md2-option-'' @ toString c"
  by (simp add: new_Md2Option_def postIncrement_def get_id_def)

lemma new_Md2Option_counter:
  "snd (new_Md2Option grp element c) = snd (postIncrement c)"
  by (simp add: new_Md2Option_def case_prod_beta)

lemma postIncrement_counter:
  "c \<le> exact_limit \<Longrightarrow> snd (postIncrement c) = (if c < exact_limit then c + 1 else c)"
  by (auto simp add: postIncrement_def exact_limit_def)

lemma create_options_Cons:
  "fst (create_options ((grp, element) # args) c) =
     fst (new_Md2Option grp element c) # fst (create_options args (snd (postIncrement c)))"
  by (simp add: case_prod_beta new_Md2Option_counter)

lemma create_options_length: "length (fst (create_options args c)) = length args"
proof (induction args arbitrary: c)
  case Nil
  show ?case by simp
next
  case (Cons a args)
  obtain grp element where a: "a = (grp, element)" by (cases a)
  show ?case unfolding a create_options_Cons by (simp add: Cons.IH)
qed

text \<open>
  The identifier of the option created after \<open>k\<close> others, in a process whose counter
  stood at \<open>c\<close>: the counter has moved by one for each of them, up to the limit.
\<close>

lemma create_options_nth_id:
  "c \<le> exact_limit \<Longrightarrow> k < length args \<Longrightarrow>
   get_id (fst (create_options args c) ! k) = ''md2-option-'' @ toString (min (c + k) exact_limit)"
proof (induction args arbitrary: c k)
  case Nil
  then show ?case by simp
next
  case (Cons a args)
  obtain grp element where a: "a = (grp, element)" by (cases a)
  let ?c' = "snd (postIncrement c)"
  show ?case
  proof (cases k)
    case 0
    with Cons.prems show ?thesis
      unfolding a create_options_Cons by (simp add: new_Md2Option_id)
  next
    case (Suc k')
    from Cons.prems have c': "?c' \<le> exact_limit"
      by (simp add: postIncrement_counter)
    from Cons.prems Suc have k': "k' < length args" by simp
    from Cons.prems have "min (?c' + k') exact_limit = min (c + Suc k') exact_limit"
      by (simp add: postIncrement_counter)
    with Cons.IH [OF c' k'] show ?thesis
      unfolding a create_options_Cons Suc by simp
  qed
qed

lemma digit_chars:
  "digit_char 0 = CHR ''0''" "digit_char (Suc 0) = CHR ''1''" "digit_char 1 = CHR ''1''"
  "digit_char 2 = CHR ''2''" "digit_char 3 = CHR ''3''" "digit_char 4 = CHR ''4''"
  "digit_char 5 = CHR ''5''" "digit_char 6 = CHR ''6''" "digit_char 7 = CHR ''7''"
  "digit_char 8 = CHR ''8''" "digit_char 9 = CHR ''9''"
  by code_simp+

lemma toString_limit: "toString exact_limit = ''9007199254740992''"
  by (simp add: exact_limit_def toString.simps digit_chars)

text \<open>No method assigns \<open>_id\<close>: an option keeps the identifier it was created with.\<close>

lemma methods_keep_id:
  "get_id (select this opt) = get_id opt"
  "get_id (deselect this opt) = get_id opt"
  "get_id (selectViaInteraction this opt) = get_id opt"
  "get_id (handleKeydown ENTER SPACE this event opt) = get_id opt"
  "get_id (setActiveStyles opt) = get_id opt"
  "get_id (setInactiveStyles opt) = get_id opt"
  "get_id (set_disabled coerceBooleanProperty v opt) = get_id opt"
  by (simp_all add: get_id_def select_def deselect_def selectViaInteraction_def handleKeydown_def
      setActiveStyles_def setInactiveStyles_def set_disabled_def emit_fields)

lemma two_options_created:
  "create_options [(None, ()), (None, ())] initial_uniqueIdCounter
     = ([first_created, second_created], 2)"
  by (simp add: new_Md2Option_def postIncrement_def initial_uniqueIdCounter_def exact_limit_def
      toString.simps digit_chars first_created_def second_created_def)

text \<open>
  C7. Of two options created in the same process, the later one has another identifier
  than the earlier one, and embeds a strictly larger counter value. The processes are
  those that create at most \<open>2 ^ 53 + 1\<close> options: this is how far the counter, a double,
  counts without repeating a value, and further than a process gets, since creating
  \<open>2 ^ 53\<close> options takes decades.
\<close>

theorem ids_distinct_increasing:
  assumes "create_options args initial_uniqueIdCounter = (opts, c)"
    and "length opts \<le> exact_limit + 1"
    and "i < j"
    and "j < length opts"
  shows "get_id (opts ! i) \<noteq> get_id (opts ! j)
    \<and> embedded_counter (get_id (opts ! i)) < embedded_counter (get_id (opts ! j))"
proof -
  from assms(1) have opts: "opts = fst (create_options args initial_uniqueIdCounter)"
    by simp
  with assms have j: "j < length args" and i: "i < length args"
    by (simp_all add: create_options_length)
  from assms(2,3,4) have below: "i < exact_limit"
    by simp
  have start: "initial_uniqueIdCounter \<le> exact_limit"
    by (simp add: initial_uniqueIdCounter_def)
  have zero: "initial_uniqueIdCounter + n = n" for n
    by (simp add: initial_uniqueIdCounter_def)
  have "embedded_counter (get_id (opts ! i)) = min i exact_limit"
    by (simp only: opts create_options_nth_id [OF start i] embedded_counter_id zero)
  moreover have "embedded_counter (get_id (opts ! j)) = min j exact_limit"
    by (simp only: opts create_options_nth_id [OF start j] embedded_counter_id zero)
  ultimately have less: "embedded_counter (get_id (opts ! i)) < embedded_counter (get_id (opts ! j))"
    using assms(3) below by simp
  then have "get_id (opts ! i) \<noteq> get_id (opts ! j)"
    by auto
  with less show ?thesis by simp
qed

theorem ids_distinct_increasing_witness:
  "create_options [(None, ()), (None, ())] initial_uniqueIdCounter
     = ([first_created, second_created], 2)
   \<and> length [first_created, second_created] \<le> exact_limit + 1
   \<and> (0::nat) < 1
   \<and> 1 < length [first_created, second_created]
   \<and> get_id ([first_created, second_created] ! 0) \<noteq> get_id ([first_created, second_created] ! 1)
   \<and> embedded_counter (get_id ([first_created, second_created] ! 0))
       < embedded_counter (get_id ([first_created, second_created] ! 1))"
  using ids_distinct_increasing [OF two_options_created, of 0 1] two_options_created
  by (simp add: exact_limit_def)


text \<open>
  The bound cannot be larger: were a process to create \<open>2 ^ 53 + 2\<close> options, the last
  two would have the same identifier, \<open>md2-option-9007199254740992\<close>.
\<close>

lemma ids_repeat_beyond_limit:
  "get_id (fst (create_options (replicate (2 ^ 53 + 2) (None, ())) initial_uniqueIdCounter
      :: (nat, unit) Md2Option list \<times> nat) ! (2 ^ 53)) = ''md2-option-9007199254740992''
   \<and> get_id (fst (create_options (replicate (2 ^ 53 + 2) (None, ())) initial_uniqueIdCounter
      :: (nat, unit) Md2Option list \<times> nat) ! (2 ^ 53 + 1)) = ''md2-option-9007199254740992''
   \<and> (2 ^ 53 :: nat) < 2 ^ 53 + 1
   \<and> 2 ^ 53 + 1 < length (fst (create_options (replicate (2 ^ 53 + 2) (None, ())) initial_uniqueIdCounter
      :: (nat, unit) Md2Option list \<times> nat))"
proof -
  let ?args = "replicate (2 ^ 53 + 2) (None, ()) :: (Md2Optgroup option \<times> unit) list"
  have start: "initial_uniqueIdCounter \<le> exact_limit"
    by (simp add: initial_uniqueIdCounter_def)
  have a: "(2 ^ 53 :: nat) < length ?args" and b: "(2 ^ 53 + 1 :: nat) < length ?args"
    by simp_all
  have at_a: "min (initial_uniqueIdCounter + 2 ^ 53) exact_limit = exact_limit"
    and at_b: "min (initial_uniqueIdCounter + (2 ^ 53 + 1)) exact_limit = exact_limit"
    by (simp_all add: initial_uniqueIdCounter_def exact_limit_def)
  have "get_id (fst (create_options ?args initial_uniqueIdCounter
          :: (nat, unit) Md2Option list \<times> nat) ! (2 ^ 53)) = ''md2-option-'' @ toString exact_limit"
    by (simp only: create_options_nth_id [OF start a] at_a)
  moreover have "get_id (fst (create_options ?args initial_uniqueIdCounter
          :: (nat, unit) Md2Option list \<times> nat) ! (2 ^ 53 + 1)) = ''md2-option-'' @ toString exact_limit"
    by (simp only: create_options_nth_id [OF start b] at_b)
  ultimately show ?thesis
    by (simp add: toString_limit create_options_length)
qed

end
